theory Spec2Isabelle
  imports Main "HOL-Library.Word"
begin

unbundle bit_operations_syntax

section \<open>JavaScript values\<close>

text \<open>
  The two stateful components of the site, \<^verbatim>\<open>Contact.tsx\<close> and \<^verbatim>\<open>ThemeProvider.tsx\<close>, are
  embedded as state-passing functions. Values that cross the boundary to the platform (the
  body returned by \<^verbatim>\<open>response.json()\<close>, the string returned by
  \<^verbatim>\<open>localStorage.getItem\<close>) keep their run-time shape: TypeScript's annotations are
  erased when the code runs, so a parsed body is any JSON value and a stored theme is any
  string.

  A number is its IEEE 754 binary64 bit pattern; strings are character lists.
\<close>

datatype js_value =
    JUndefined
  | JNull
  | JBool bool
  | JNum "64 word"
  | JStr string
  | JArr "js_value list"
  | JObj "(string \<times> js_value) list"

datatype js_error =
    NetworkError
  | SyntaxError
  | TypeError
  | DOMSyntaxError
  | InvalidCharacterError

text \<open>Both zeros have all bits below the sign bit clear.\<close>

definition is_zero :: "64 word \<Rightarrow> bool" where
  "is_zero w = (w AND 0x7FFFFFFFFFFFFFFF = 0)"

text \<open>A NaN has every exponent bit set and a mantissa that is not zero.\<close>

definition is_nan :: "64 word \<Rightarrow> bool" where
  "is_nan w =
     (w AND 0x7FF0000000000000 = 0x7FF0000000000000 \<and> w AND 0x000FFFFFFFFFFFFF \<noteq> 0)"

text \<open>The conversion that \<^verbatim>\<open>if (x)\<close> applies to \<open>x\<close>.\<close>

fun ToBoolean :: "js_value \<Rightarrow> bool" where
  "ToBoolean JUndefined = False"
| "ToBoolean JNull = False"
| "ToBoolean (JBool b) = b"
| "ToBoolean (JNum w) = (\<not> is_zero w \<and> \<not> is_nan w)"
| "ToBoolean (JStr s) = (s \<noteq> [])"
| "ToBoolean (JArr xs) = True"
| "ToBoolean (JObj kvs) = True"

text \<open>
  The property read \<^verbatim>\<open>data.success\<close>. Reading a property of \<^verbatim>\<open>null\<close> or
  \<^verbatim>\<open>undefined\<close> throws a TypeError. An object lists its members in document order, and
  a repeated key takes its last value, as \<^verbatim>\<open>JSON.parse\<close> builds it. Arrays and primitive
  values have no property of that name.
\<close>

fun get_success :: "js_value \<Rightarrow> js_error + js_value" where
  "get_success JUndefined = Inl TypeError"
| "get_success JNull = Inl TypeError"
| "get_success (JObj kvs) =
     Inr (case map_of (rev kvs) ''success'' of None \<Rightarrow> JUndefined | Some v \<Rightarrow> v)"
| "get_success (JBool b) = Inr JUndefined"
| "get_success (JNum w) = Inr JUndefined"
| "get_success (JStr s) = Inr JUndefined"
| "get_success (JArr xs) = Inr JUndefined"

section \<open>The contact form (Contact.tsx)\<close>

record FormData =
  name :: string
  email :: string
  message :: string

datatype status = Idle | Submitting | Success | Error

text \<open>One call of \<^verbatim>\<open>fetch\<close>: the address and the options object passed to it.\<close>

record fetch_call =
  url :: string
  http_method :: string
  headers :: "(string \<times> string) list"
  body :: js_value

text \<open>
  The component's two state cells, and the trace of the requests it has sent. The trace is
  not part of the component; it records the effect of \<^verbatim>\<open>fetch\<close> on the outside world.
\<close>

record contact =
  formData :: FormData
  status :: status
  sent :: "fetch_call list"

definition empty_form :: FormData where
  "empty_form = \<lparr>name = '''', email = '''', message = ''''\<rparr>"

text \<open>The state of the first render: both \<^verbatim>\<open>useState\<close> initial values, nothing sent.\<close>

definition Contact :: contact where
  "Contact = \<lparr>formData = empty_form, status = Idle, sent = []\<rparr>"

definition setStatus :: "status \<Rightarrow> contact \<Rightarrow> contact" where
  "setStatus v c = c\<lparr>status := v\<rparr>"

definition setFormData :: "FormData \<Rightarrow> contact \<Rightarrow> contact" where
  "setFormData v c = c\<lparr>formData := v\<rparr>"

text \<open>
  The three controls bound to \<^verbatim>\<open>handleChange\<close>; the constructor stands for the control's
  \<^verbatim>\<open>name\<close> attribute, which is what \<^verbatim>\<open>e.target.name\<close> reads.
\<close>

datatype input_name = Input_name | Input_email | Input_message

text \<open>\<^verbatim>\<open>{...formData, [e.target.name]: e.target.value}\<close>\<close>

fun spread_with :: "FormData \<Rightarrow> input_name \<Rightarrow> string \<Rightarrow> FormData" where
  "spread_with fd Input_name v = fd\<lparr>name := v\<rparr>"
| "spread_with fd Input_email v = fd\<lparr>email := v\<rparr>"
| "spread_with fd Input_message v = fd\<lparr>message := v\<rparr>"

definition handleChange :: "input_name \<Rightarrow> string \<Rightarrow> contact \<Rightarrow> contact" where
  "handleChange n v c = setFormData (spread_with (formData c) n v) c"

fun field :: "input_name \<Rightarrow> FormData \<Rightarrow> string" where
  "field Input_name fd = name fd"
| "field Input_email fd = email fd"
| "field Input_message fd = message fd"

text \<open>A sequence of edits, applied in order.\<close>

definition handleChanges :: "(input_name \<times> string) list \<Rightarrow> contact \<Rightarrow> contact" where
  "handleChanges es c = foldl (\<lambda>c' (n, v). handleChange n v c') c es"

text \<open>The object handed to \<^verbatim>\<open>JSON.stringify\<close> for the request body.\<close>

definition request_body :: "FormData \<Rightarrow> js_value" where
  "request_body fd = JObj
     [(''access_key'', JStr ''5fe16617-2e0a-4a55-8ec4-d6bcb699c086''),
      (''name'', JStr (name fd)),
      (''email'', JStr (email fd)),
      (''message'', JStr (message fd)),
      (''subject'', JStr (''kelvinma.com Inquiry from '' @ name fd)),
      (''from_name'', JStr (name fd)),
      (''botcheck'', JBool False)]"

definition request :: "FormData \<Rightarrow> fetch_call" where
  "request fd =
     \<lparr>url = ''https://api.web3forms.com/submit'',
      http_method = ''POST'',
      headers = [(''Content-Type'', ''application/json''), (''Accept'', ''application/json'')],
      body = request_body fd\<rparr>"

text \<open>
  What the two \<^verbatim>\<open>await\<close>s of \<^verbatim>\<open>handleSubmit\<close> can bring back: the promise of
  \<^verbatim>\<open>fetch\<close> rejects, or it resolves and \<^verbatim>\<open>response.json()\<close> rejects because the body
  is not JSON, or the body parses to a value. \<^verbatim>\<open>fetch\<close> resolves for every HTTP status, so
  a 500 is one of the last two.
\<close>

datatype reply = Fetch_rejects | Json_rejects | Json js_value

text \<open>
  \<^verbatim>\<open>handleSubmit\<close> up to its first \<^verbatim>\<open>await\<close>: the status is set and the request leaves,
  carrying the fields of the render the handler belongs to. There is no test of
  \<^verbatim>\<open>status\<close> in the handler. The calls \<^verbatim>\<open>e.preventDefault()\<close> and
  \<^verbatim>\<open>console.error\<close> change nothing that the component reads and are left out.
\<close>

definition handleSubmit_send :: "contact \<Rightarrow> contact" where
  "handleSubmit_send c = (setStatus Submitting c)\<lparr>sent := sent c @ [request (formData c)]\<rparr>"

text \<open>The rest of the \<^verbatim>\<open>try\<close> block, run when the request settles.\<close>

definition try_block :: "reply \<Rightarrow> contact \<Rightarrow> js_error + contact" where
  "try_block r c =
     (case r of
        Fetch_rejects \<Rightarrow> Inl NetworkError
      | Json_rejects \<Rightarrow> Inl SyntaxError
      | Json data \<Rightarrow>
          (case get_success data of
             Inl e \<Rightarrow> Inl e
           | Inr v \<Rightarrow>
               if ToBoolean v then Inr (setFormData empty_form (setStatus Success c))
               else Inr (setStatus Error c)))"

text \<open>
  The \<^verbatim>\<open>try\<close> with its \<^verbatim>\<open>catch\<close>. The result is how the handler's promise settles:
  \<open>Inr\<close> when it fulfils, \<open>Inl\<close> when an exception leaves the handler.
\<close>

definition handleSubmit_settle :: "reply \<Rightarrow> contact \<Rightarrow> js_error + contact" where
  "handleSubmit_settle r c =
     (case try_block r c of
        Inr c' \<Rightarrow> Inr c'
      | Inl e \<Rightarrow> Inr (setStatus Error c))"

text \<open>
  The test \<^verbatim>\<open>if (data.success)\<close> on its own: whether the read returns a value that
  converts to \<^verbatim>\<open>true\<close>.
\<close>

definition indicates_success :: "js_value \<Rightarrow> bool" where
  "indicates_success data = (case get_success data of Inl e \<Rightarrow> False | Inr v \<Rightarrow> ToBoolean v)"

text \<open>The replies that do not reach the success branch.\<close>

fun failure :: "reply \<Rightarrow> bool" where
  "failure Fetch_rejects = True"
| "failure Json_rejects = True"
| "failure (Json data) = (\<not> indicates_success data)"

text \<open>A whole run of the handler, with nothing else happening while the request is out.\<close>

definition handleSubmit :: "reply \<Rightarrow> contact \<Rightarrow> js_error + contact" where
  "handleSubmit r c = handleSubmit_settle r (handleSubmit_send c)"

text \<open>
  The form is submitted through its submit button (\<^verbatim>\<open>type="submit"\<close>) or, with the caret
  in one of the two inputs, through the Enter key, which activates that same button. Two
  things stand between the user and \<^verbatim>\<open>handleSubmit\<close>. The button carries
  \<^verbatim>\<open>disabled={status === 'submitting'}\<close>, and a disabled button is not activated. The
  form has no \<^verbatim>\<open>noValidate\<close>, so the browser validates the controls first and fires the
  submit event only when all of them are valid: the three controls are \<^verbatim>\<open>required\<close>, and
  the second has \<^verbatim>\<open>type="email"\<close>. The controls are controlled, so their values are the
  fields of \<^verbatim>\<open>formData\<close>.
\<close>

definition button_disabled :: "contact \<Rightarrow> bool" where
  "button_disabled c = (status c = Submitting)"

text \<open>
  A valid e-mail address, as the HTML standard defines it for \<^verbatim>\<open>type="email"\<close>:
  \<^verbatim>\<open>1*( atext / "." ) "@" label *( "." label )\<close>, a label being at most 63 letters,
  digits and hyphens that neither starts nor ends with a hyphen.
\<close>

definition let_dig :: "char \<Rightarrow> bool" where
  "let_dig ch =
     (ch \<in> set ''abcdefghijklmnopqrstuvwxyzABCDEFGHIJKLMNOPQRSTUVWXYZ0123456789'')"

definition atext :: "char \<Rightarrow> bool" where
  "atext ch =
     (let_dig ch \<or>
      ch \<in> {CHR ''!'', CHR ''#'', CHR ''$'', CHR ''%'', CHR ''&'', CHR 0x27, CHR ''*'',
            CHR ''+'', CHR ''-'', CHR ''/'', CHR ''='', CHR ''?'', CHR ''^'', CHR ''_'',
            CHR 0x60, CHR ''{'', CHR ''|'', CHR ''}'', CHR ''~''})"

text \<open>The pieces of a string between occurrences of a separator.\<close>

fun split_on :: "char \<Rightarrow> string \<Rightarrow> string list" where
  "split_on sep [] = [[]]"
| "split_on sep (x # xs) =
     (if x = sep then [] # split_on sep xs
      else (case split_on sep xs of
              [] \<Rightarrow> [[x]]
            | w # ws \<Rightarrow> (x # w) # ws))"

definition label :: "string \<Rightarrow> bool" where
  "label w =
     (w \<noteq> [] \<and> length w \<le> 63 \<and> let_dig (hd w) \<and> let_dig (last w) \<and>
      list_all (\<lambda>ch. let_dig ch \<or> ch = CHR ''-'') w)"

definition valid_email :: "string \<Rightarrow> bool" where
  "valid_email s =
     (case split_on CHR ''@'' s of
        [local_part, domain] \<Rightarrow>
          local_part \<noteq> [] \<and> list_all (\<lambda>ch. atext ch \<or> ch = CHR ''.'') local_part \<and>
          list_all label (split_on CHR ''.'' domain)
      | _ \<Rightarrow> False)"

text \<open>
  Constraint validation of the three controls: none may be empty, and the address must be
  valid.
\<close>

definition checkValidity :: "FormData \<Rightarrow> bool" where
  "checkValidity fd =
     (name fd \<noteq> [] \<and> email fd \<noteq> [] \<and> valid_email (email fd) \<and> message fd \<noteq> [])"

text \<open>Whether an attempt to submit reaches \<^verbatim>\<open>handleSubmit\<close>.\<close>

definition submits :: "contact \<Rightarrow> bool" where
  "submits c = (if button_disabled c then False else checkValidity (formData c))"

definition click_submit :: "contact \<Rightarrow> contact" where
  "click_submit c = (if submits c then handleSubmit_send c else c)"

text \<open>
  The page as the user drives it. Every call of \<^verbatim>\<open>fetch\<close> leaves a request in flight
  until its reply arrives; the page keeps count of them. The events are an edit of a
  control, an attempt to submit, and the arrival of a reply, which resumes the handler
  that is waiting for it. A reply can only arrive while a request is in flight. Each event
  is handled to its end, render included, before the next one.
\<close>

record page =
  form :: contact
  in_flight :: nat

datatype event = Change input_name string | Click | Settle reply

definition Page :: page where
  "Page = \<lparr>form = Contact, in_flight = 0\<rparr>"

fun step :: "event \<Rightarrow> page \<Rightarrow> page" where
  "step (Change n v) p = p\<lparr>form := handleChange n v (form p)\<rparr>"
| "step Click p =
     \<lparr>form = click_submit (form p),
      in_flight = (if submits (form p) then Suc (in_flight p) else in_flight p)\<rparr>"
| "step (Settle r) p =
     (if in_flight p = 0 then p
      else \<lparr>form = (case handleSubmit_settle r (form p) of Inl e \<Rightarrow> form p | Inr c \<Rightarrow> c),
            in_flight = in_flight p - 1\<rparr>)"

definition run :: "event list \<Rightarrow> page \<Rightarrow> page" where
  "run es p = foldl (\<lambda>p' e. step e p') p es"

text \<open>The events that leave a request in flight waiting: all but the arrival of a reply.\<close>

fun waits :: "event \<Rightarrow> bool" where
  "waits (Settle r) = False"
| "waits (Change n v) = True"
| "waits Click = True"

text \<open>
  The status tells how many requests are in flight: one while it is \<open>Submitting\<close>, none
  otherwise.
\<close>

definition one_in_flight :: "page \<Rightarrow> bool" where
  "one_in_flight p = (in_flight p = (if status (form p) = Submitting then 1 else 0))"

section \<open>The theme provider (ThemeProvider.tsx)\<close>

text \<open>
  \<^verbatim>\<open>type Theme = 'light' | 'dark'\<close> is a set of strings at run time, and the value read
  from storage is given that type by an unchecked \<^verbatim>\<open>as\<close>. The state cell therefore holds
  a string.
\<close>

record provider =
  theme :: string
  mounted :: bool

text \<open>
  The part of the browser the provider touches: the \<^verbatim>\<open>"theme"\<close> slot of
  \<^verbatim>\<open>localStorage\<close>, the answer of the \<^verbatim>\<open>prefers-color-scheme: dark\<close> media query, and the
  class list of the document's root element; with them, the number of \<^verbatim>\<open>getItem\<close> calls
  and the values passed to \<^verbatim>\<open>setItem\<close>, oldest first. Storage is taken to be
  available: \<^verbatim>\<open>getItem\<close> and \<^verbatim>\<open>setItem\<close> return normally.
\<close>

record browser =
  storage :: "string option"
  prefersDark :: bool
  classList :: "string list"
  reads :: nat
  writes :: "string list"

text \<open>
  The browser a session starts in: \<^verbatim>\<open>layout.tsx\<close> renders \<^verbatim>\<open><html lang="en">\<close>, with
  no class.
\<close>

definition session :: "string option \<Rightarrow> bool \<Rightarrow> browser" where
  "session saved dark =
     \<lparr>storage = saved, prefersDark = dark, classList = [], reads = 0, writes = []\<rparr>"

text \<open>\<^verbatim>\<open>useState<Theme>('light')\<close> and \<^verbatim>\<open>useState(false)\<close>.\<close>

definition ThemeProvider :: provider where
  "ThemeProvider = \<lparr>theme = ''light'', mounted = False\<rparr>"

definition getItem :: "browser \<Rightarrow> string option \<times> browser" where
  "getItem b = (storage b, b\<lparr>reads := Suc (reads b)\<rparr>)"

definition setItem :: "string \<Rightarrow> browser \<Rightarrow> browser" where
  "setItem v b = b\<lparr>storage := Some v, writes := writes b @ [v]\<rparr>"

text \<open>
  The first effect. \<^verbatim>\<open>if (savedTheme)\<close> is false for \<^verbatim>\<open>null\<close> and for the empty string.
  The media query is read only on the fall-back branch.
\<close>

definition mount_effect :: "provider \<Rightarrow> browser \<Rightarrow> provider \<times> browser" where
  "mount_effect p b =
     (let p1 = p\<lparr>mounted := True\<rparr>;
          (savedTheme, b1) = getItem b
      in case savedTheme of
           Some v \<Rightarrow>
             if v \<noteq> [] then (p1\<lparr>theme := v\<rparr>, b1)
             else (p1\<lparr>theme := (if prefersDark b1 then ''dark'' else ''light'')\<rparr>, b1)
         | None \<Rightarrow> (p1\<lparr>theme := (if prefersDark b1 then ''dark'' else ''light'')\<rparr>, b1))"

text \<open>
  \<^verbatim>\<open>DOMTokenList\<close>: an ordered set of tokens. \<^verbatim>\<open>add\<close> throws a SyntaxError for the empty
  token and an InvalidCharacterError for a token with ASCII whitespace in it.
\<close>

definition ascii_whitespace :: "char \<Rightarrow> bool" where
  "ascii_whitespace ch = (ch \<in> {CHR 0x09, CHR 0x0A, CHR 0x0C, CHR 0x0D, CHR 0x20})"

definition classList_remove :: "string list \<Rightarrow> string list \<Rightarrow> string list" where
  "classList_remove tokens cl = filter (\<lambda>t. t \<notin> set tokens) cl"

definition classList_add :: "string \<Rightarrow> string list \<Rightarrow> js_error + string list" where
  "classList_add token cl =
     (if token = [] then Inl DOMSyntaxError
      else if list_ex ascii_whitespace token then Inl InvalidCharacterError
      else Inr (if token \<in> set cl then cl else cl @ [token]))"

text \<open>The second effect, run with the state of the render it belongs to.\<close>

definition persist_effect :: "provider \<Rightarrow> browser \<Rightarrow> js_error + browser" where
  "persist_effect p b =
     (if \<not> mounted p then Inr b
      else
        let cl = classList_remove [''light'', ''dark''] (classList b)
        in case classList_add (theme p) cl of
             Inl e \<Rightarrow> Inl e
           | Inr cl' \<Rightarrow> Inr (setItem (theme p) (b\<lparr>classList := cl'\<rparr>)))"

text \<open>
  After a render is committed, an effect with dependencies \<^verbatim>\<open>[theme, mounted]\<close> runs when
  one of them differs from the previous render.
\<close>

definition commit :: "provider \<Rightarrow> provider \<Rightarrow> browser \<Rightarrow> js_error + browser" where
  "commit prev cur b =
     (if theme cur \<noteq> theme prev \<or> mounted cur \<noteq> mounted prev then persist_effect cur b
      else Inr b)"

text \<open>
  Mounting. After the first render both effects run in the order they are declared, each
  with the state of that render; the state updates queued by the first effect then cause a
  second render, whose commit runs the second effect again.
\<close>

definition initialize :: "browser \<Rightarrow> js_error + provider \<times> browser" where
  "initialize b =
     (let (p1, b1) = mount_effect ThemeProvider b
      in case persist_effect ThemeProvider b1 of
           Inl e \<Rightarrow> Inl e
         | Inr b2 \<Rightarrow>
             (case commit ThemeProvider p1 b2 of
                Inl e \<Rightarrow> Inl e
              | Inr b3 \<Rightarrow> Inr (p1, b3)))"

text \<open>\<^verbatim>\<open>setTheme(prevTheme => prevTheme === 'light' ? 'dark' : 'light')\<close>\<close>

definition toggleTheme :: "provider \<Rightarrow> provider" where
  "toggleTheme p = p\<lparr>theme := (if theme p = ''light'' then ''dark'' else ''light'')\<rparr>"

text \<open>A click on the toggle: the state update, the render and its commit.\<close>

definition toggle :: "provider \<times> browser \<Rightarrow> js_error + provider \<times> browser" where
  "toggle s =
     (let p' = toggleTheme (fst s)
      in case commit (fst s) p' (snd s) of
           Inl e \<Rightarrow> Inl e
         | Inr b' \<Rightarrow> Inr (p', b'))"

fun toggles :: "nat \<Rightarrow> provider \<times> browser \<Rightarrow> js_error + provider \<times> browser" where
  "toggles 0 s = Inr s"
| "toggles (Suc n) s = (case toggle s of Inl e \<Rightarrow> Inl e | Inr s' \<Rightarrow> toggles n s')"

text \<open>The two mode markers the root carries, in class-list order.\<close>

definition markers :: "browser \<Rightarrow> string list" where
  "markers b = filter (\<lambda>t. t = ''light'' \<or> t = ''dark'') (classList b)"

section \<open>Properties of the contact form\<close>

lemma setStatus_eq: "setStatus v c = c\<lparr>status := v\<rparr>"
  by (simp add: setStatus_def)

lemma setFormData_eq: "setFormData fd c = c\<lparr>formData := fd\<rparr>"
  by (simp add: setFormData_def)

lemma handleChange_status: "status (handleChange n v c) = status c"
  by (simp add: handleChange_def setFormData_eq)

lemma handleChange_sent: "sent (handleChange n v c) = sent c"
  by (simp add: handleChange_def setFormData_eq)

text \<open>Edits, however many, touch neither the status nor the trace of requests.\<close>

lemma handleChanges_frame:
  "status (handleChanges es c) = status c \<and> sent (handleChanges es c) = sent c"
  unfolding handleChanges_def
  by (induction es arbitrary: c) (auto simp: handleChange_status handleChange_sent)

text \<open>
  The second half of the handler, from any state: the fields it resets or keeps are the
  ones on screen when the reply arrives.
\<close>

lemma settle_success:
  assumes "indicates_success d"
  shows "handleSubmit_settle (Json d) c = Inr (c\<lparr>status := Success, formData := empty_form\<rparr>)"
  using assms
  by (auto simp: handleSubmit_settle_def try_block_def indicates_success_def
      setStatus_eq setFormData_eq split: sum.splits)

lemma settle_failure:
  assumes "failure r"
  shows "handleSubmit_settle r c = Inr (c\<lparr>status := Error\<rparr>)"
  using assms
  by (cases r)
    (auto simp: handleSubmit_settle_def try_block_def indicates_success_def
      setStatus_eq split: sum.splits)

lemma indicates_success_iff:
  "indicates_success d \<longleftrightarrow>
     (\<exists>kvs v. d = JObj kvs \<and> map_of (rev kvs) ''success'' = Some v \<and> ToBoolean v)"
  by (cases d) (auto simp: indicates_success_def split: option.splits)

text \<open>
  Claim C1. From any state and after any sequence of edits, a run of the submit handler
  whose reply parses to a body with \<^verbatim>\<open>success\<close> equal to \<^verbatim>\<open>true\<close> ends with status
  \<open>Success\<close> and the three fields empty; the one request it sent carries the fields as they
  were.
\<close>

theorem submit_success_resets_fields:
  assumes "get_success d = Inr (JBool True)"
  shows "handleSubmit (Json d) (handleChanges es c) =
           Inr \<lparr>formData = empty_form, status = Success,
                sent = sent c @ [request (formData (handleChanges es c))]\<rparr>"
proof -
  have "indicates_success d"
    using assms by (simp add: indicates_success_def)
  then show ?thesis
    by (simp add: handleSubmit_def settle_success handleSubmit_send_def setStatus_eq
        handleChanges_frame)
qed

theorem submit_success_resets_fields_witness:
  "get_success (JObj [(''success'', JBool True)]) = Inr (JBool True) \<and>
   handleSubmit (Json (JObj [(''success'', JBool True)]))
      (handleChanges [(Input_name, ''Ada''), (Input_email, ''ada@example.com''),
                      (Input_message, ''Hello'')] Contact) =
     Inr \<lparr>formData = \<lparr>name = [], email = [], message = []\<rparr>, status = Success,
          sent = [request \<lparr>name = ''Ada'', email = ''ada@example.com'', message = ''Hello''\<rparr>]\<rparr>"
proof -
  have g: "get_success (JObj [(''success'', JBool True)]) = Inr (JBool True)"
    by simp
  have e: "formData (handleChanges [(Input_name, ''Ada''), (Input_email, ''ada@example.com''),
                      (Input_message, ''Hello'')] Contact)
             = \<lparr>name = ''Ada'', email = ''ada@example.com'', message = ''Hello''\<rparr>"
    by (simp add: handleChanges_def handleChange_def setFormData_eq Contact_def empty_form_def)
  have s: "sent Contact = []"
    by (simp add: Contact_def)
  show ?thesis
    using g submit_success_resets_fields [OF g,
        of "[(Input_name, ''Ada''), (Input_email, ''ada@example.com''),
             (Input_message, ''Hello'')]" Contact]
    by (simp add: e s empty_form_def)
qed

text \<open>
  Claim C2. From any state and after any sequence of edits, a run of the submit handler
  that fails (the request rejects, the body is not JSON, or the body does not pass the
  success test) fulfils rather than throws, ends with status \<open>Error\<close>, and leaves the
  fields as they were before the run.
\<close>

theorem submit_failure_keeps_fields:
  assumes "failure r"
  shows "case handleSubmit r (handleChanges es c) of
           Inl e \<Rightarrow> False
         | Inr c' \<Rightarrow> status c' = Error \<and> formData c' = formData (handleChanges es c)"
  using assms
  by (simp add: handleSubmit_def settle_failure handleSubmit_send_def setStatus_eq)

theorem submit_failure_keeps_fields_witness:
  "failure (Json (JObj [(''success'', JBool False)])) \<and>
   (case handleSubmit (Json (JObj [(''success'', JBool False)]))
           (handleChanges [(Input_name, ''Ada''), (Input_message, ''Hello'')] Contact) of
      Inl e \<Rightarrow> False
    | Inr c' \<Rightarrow> status c' = Error \<and>
        formData c' = \<lparr>name = ''Ada'', email = [], message = ''Hello''\<rparr>)"
proof -
  have f: "failure (Json (JObj [(''success'', JBool False)]))"
    by (simp add: indicates_success_def)
  have e: "formData (handleChanges [(Input_name, ''Ada''), (Input_message, ''Hello'')] Contact)
             = \<lparr>name = ''Ada'', email = [], message = ''Hello''\<rparr>"
    by (simp add: handleChanges_def handleChange_def setFormData_eq Contact_def empty_form_def)
  show ?thesis
    using f submit_failure_keeps_fields [OF f,
        of "[(Input_name, ''Ada''), (Input_message, ''Hello'')]" Contact]
    by (simp add: e split: sum.splits)
qed

text \<open>
  A body that parses to an object whose \<^verbatim>\<open>success\<close> member is \<^verbatim>\<open>false\<close> or absent is
  a failure in the sense above, and so are the other failures the specification names.
\<close>

lemma relay_reported_failure:
  assumes "map_of (rev kvs) ''success'' = None \<or> map_of (rev kvs) ''success'' = Some (JBool False)"
  shows "failure (Json (JObj kvs))"
  using assms by (auto simp: indicates_success_def)

lemma named_failures:
  "failure Fetch_rejects"
  "failure Json_rejects"
  "failure (Json (JObj [(''success'', JBool False)]))"
  "failure (Json (JObj []))"
  "failure (Json JNull)"
  "failure (Json (JStr ''Internal Server Error''))"
  by (simp_all add: indicates_success_def)

subsection \<open>Submitting while a request is in flight\<close>

lemma valid_ada: "valid_email ''ada@example.com''"
  by (simp add: valid_email_def label_def let_dig_def atext_def)

text \<open>However the request settles, the status afterwards is \<open>Success\<close> or \<open>Error\<close>.\<close>

lemma settle_status:
  "case handleSubmit_settle r c of Inl e \<Rightarrow> False | Inr c' \<Rightarrow> status c' = Success \<or> status c' = Error"
proof (cases "failure r")
  case True
  then show ?thesis by (simp add: settle_failure)
next
  case False
  then obtain d where "r = Json d" "indicates_success d"
    by (cases r) simp_all
  then show ?thesis by (simp add: settle_success)
qed

text \<open>
  Every event keeps the count of requests in flight in step with the status, so the
  count never exceeds one on a page the user drives.
\<close>

lemma step_one_in_flight:
  assumes "one_in_flight p"
  shows "one_in_flight (step e p)"
proof (cases e)
  case (Change n v)
  then show ?thesis
    using assms by (simp add: one_in_flight_def handleChange_status)
next
  case Click
  then show ?thesis
    using assms
    by (auto simp: one_in_flight_def click_submit_def submits_def button_disabled_def
        handleSubmit_send_def setStatus_eq split: if_splits)
next
  case (Settle r)
  then show ?thesis
    using assms settle_status [of r "form p"]
    by (auto simp: one_in_flight_def split: sum.splits if_splits)
qed

lemma run_one_in_flight:
  assumes "one_in_flight p"
  shows "one_in_flight (run es p)"
  using assms unfolding run_def
  by (induction es arbitrary: p) (simp_all add: step_one_in_flight)

text \<open>Edits and attempts to submit, made while the status is \<open>Submitting\<close>, send nothing.\<close>

lemma click_disabled:
  assumes "status (form p) = Submitting"
  shows "step Click p = p"
  using assms by (simp add: click_submit_def submits_def button_disabled_def)

lemma waiting_step:
  assumes "status (form p) = Submitting" and "waits e"
  shows "status (form (step e p)) = Submitting \<and> sent (form (step e p)) = sent (form p) \<and>
         in_flight (step e p) = in_flight p"
  using assms
  by (cases e)
    (simp_all add: handleChange_status handleChange_sent click_submit_def submits_def
      button_disabled_def)

lemma waiting_run:
  assumes "status (form p) = Submitting" and "list_all waits fs"
  shows "status (form (run fs p)) = Submitting \<and> sent (form (run fs p)) = sent (form p) \<and>
         in_flight (run fs p) = in_flight p"
  using assms unfolding run_def
proof (induction fs arbitrary: p)
  case Nil
  then show ?case by simp
next
  case (Cons e fs)
  then have w: "waits e" and ws: "list_all waits fs" by simp_all
  note s = waiting_step [OF Cons.prems(1) w]
  from s have "status (form (step e p)) = Submitting" by (rule conjunct1)
  from Cons.IH [OF this ws] s show ?case by simp
qed

text \<open>
  Claim C3. On the page as the user drives it, an attempt to submit made while the status
  is \<open>Submitting\<close> is ignored: the page is unchanged, and exactly one request is in
  flight. However many attempts and edits follow before the reply arrives, the status
  stays \<open>Submitting\<close>, no further request is sent, and that one request remains the only
  one in flight.
\<close>

theorem resubmit_while_submitting_ignored:
  assumes "status (form (run es Page)) = Submitting" and "list_all waits fs"
  shows "step Click (run es Page) = run es Page \<and>
         in_flight (run es Page) = 1 \<and>
         status (form (run fs (run es Page))) = Submitting \<and>
         sent (form (run fs (run es Page))) = sent (form (run es Page)) \<and>
         in_flight (run fs (run es Page)) = 1"
proof -
  have "one_in_flight Page"
    by (simp add: one_in_flight_def Page_def Contact_def)
  then have "one_in_flight (run es Page)"
    by (rule run_one_in_flight)
  then have one: "in_flight (run es Page) = 1"
    using assms(1) by (simp add: one_in_flight_def)
  show ?thesis
    using click_disabled [OF assms(1)] one waiting_run [OF assms] by simp
qed


theorem resubmit_while_submitting_ignored_witness:
  "status (form (run [Change Input_name ''Ada'', Change Input_email ''ada@example.com'',
                      Change Input_message ''Hello'', Click] Page)) = Submitting \<and>
   list_all waits [Click, Change Input_message ''Hello again'', Click] \<and>
   step Click (run [Change Input_name ''Ada'', Change Input_email ''ada@example.com'',
                    Change Input_message ''Hello'', Click] Page) =
     run [Change Input_name ''Ada'', Change Input_email ''ada@example.com'',
          Change Input_message ''Hello'', Click] Page \<and>
   length (sent (form (run [Change Input_name ''Ada'', Change Input_email ''ada@example.com'',
                            Change Input_message ''Hello'', Click] Page))) = 1 \<and>
   length (sent (form (run [Click, Change Input_message ''Hello again'', Click]
      (run [Change Input_name ''Ada'', Change Input_email ''ada@example.com'',
            Change Input_message ''Hello'', Click] Page)))) = 1 \<and>
   in_flight (run [Click, Change Input_message ''Hello again'', Click]
      (run [Change Input_name ''Ada'', Change Input_email ''ada@example.com'',
            Change Input_message ''Hello'', Click] Page)) = 1"
proof -
  let ?es = "[Change Input_name ''Ada'', Change Input_email ''ada@example.com'',
              Change Input_message ''Hello'', Click]"
  let ?fs = "[Click, Change Input_message ''Hello again'', Click]"
  have v: "checkValidity \<lparr>name = ''Ada'', email = ''ada@example.com'', message = ''Hello''\<rparr>"
    by (simp add: checkValidity_def valid_ada)
  have f: "form (run ?es Page) =
             \<lparr>formData = \<lparr>name = ''Ada'', email = ''ada@example.com'', message = ''Hello''\<rparr>,
              status = Submitting,
              sent = [request \<lparr>name = ''Ada'', email = ''ada@example.com'', message = ''Hello''\<rparr>]\<rparr>"
    using v
    by (simp add: run_def Page_def Contact_def empty_form_def handleChange_def setFormData_eq
        click_submit_def submits_def button_disabled_def handleSubmit_send_def setStatus_eq)
  have a: "status (form (run ?es Page)) = Submitting"
    by (simp add: f)
  have w: "list_all waits ?fs"
    by simp
  have l: "length (sent (form (run ?es Page))) = 1"
    by (simp add: f)
  show ?thesis
    using a w l resubmit_while_submitting_ignored [OF a w] by simp
qed

text \<open>
  The guard is the button's: the handler does not look at the status, and whenever it is
  called a request leaves.
\<close>

lemma handleSubmit_send_any_status:
  "status (handleSubmit_send c) = Submitting \<and>
   sent (handleSubmit_send c) = sent c @ [request (formData c)]"
  by (simp add: handleSubmit_send_def setStatus_eq)

text \<open>An attempt to submit the empty form fails validation and never reaches the handler.\<close>

lemma empty_form_not_submitted: "step Click Page = Page"
  by (simp add: Page_def Contact_def empty_form_def click_submit_def submits_def
      button_disabled_def checkValidity_def)

text \<open>Once the request has settled, either way, the button is enabled again.\<close>

lemma settle_enables_button:
  "case handleSubmit_settle r c of Inl e \<Rightarrow> False | Inr c' \<Rightarrow> \<not> button_disabled c'"
proof (cases "failure r")
  case True
  then show ?thesis
    by (simp add: settle_failure button_disabled_def)
next
  case False
  then obtain d where "r = Json d" "indicates_success d"
    by (cases r) simp_all
  then show ?thesis
    by (simp add: settle_success button_disabled_def)
qed

text \<open>
  Claim C4, as amended. A reply that parses ends in \<open>Success\<close> exactly when the body is an
  object whose \<^verbatim>\<open>success\<close> member converts to \<^verbatim>\<open>true\<close> (the boolean \<^verbatim>\<open>true\<close>, a
  number other than zero, a non-empty string, an object or an array), and in \<open>Error\<close>
  for every other body.
\<close>

theorem submit_status_by_truthiness:
  "case handleSubmit (Json d) c of
     Inl e \<Rightarrow> False
   | Inr c' \<Rightarrow>
       status c' =
         (if \<exists>kvs v. d = JObj kvs \<and> map_of (rev kvs) ''success'' = Some v \<and> ToBoolean v
          then Success else Error)"
proof (cases "indicates_success d")
  case True
  then show ?thesis
    using indicates_success_iff [of d] by (simp add: handleSubmit_def settle_success)
next
  case False
  then have "failure (Json d)" by simp
  then show ?thesis
    using False indicates_success_iff [of d] by (simp add: handleSubmit_def settle_failure)
qed

text \<open>A \<^verbatim>\<open>success\<close> member that is a string, not a boolean, is taken for success.\<close>

theorem truthy_success_counterexample:
  "get_success (JObj [(''success'', JStr ''no'')]) = Inr (JStr ''no'') \<and>
   (case handleSubmit (Json (JObj [(''success'', JStr ''no'')])) Contact of
      Inl e \<Rightarrow> False
    | Inr c' \<Rightarrow> status c' = Success)"
  by (simp add: handleSubmit_def handleSubmit_settle_def try_block_def handleSubmit_send_def
      setStatus_eq setFormData_eq)

text \<open>
  Claim C10. An edit changes the field it names to the value typed and nothing else: the
  other two fields, the status (whatever it is, \<open>Success\<close> and \<open>Error\<close> included) and the
  trace of requests are as before.
\<close>

theorem handleChange_changes_one_field:
  "status (handleChange n v c) = status c \<and>
   sent (handleChange n v c) = sent c \<and>
   field m (formData (handleChange n v c)) = (if m = n then v else field m (formData c))"
  by (cases n; cases m) (simp_all add: handleChange_def setFormData_eq)

section \<open>Properties of the theme provider\<close>

lemma no_whitespace_light: "\<not> list_ex ascii_whitespace ''light''"
  by (simp add: ascii_whitespace_def)

lemma no_whitespace_dark: "\<not> list_ex ascii_whitespace ''dark''"
  by (simp add: ascii_whitespace_def)

text \<open>The second effect of a mounted provider whose theme is a valid class token.\<close>

lemma persist_effect_mounted:
  assumes "mounted p" and "theme p \<noteq> []" and "\<not> list_ex ascii_whitespace (theme p)"
  shows "persist_effect p b =
           Inr (b\<lparr>classList :=
                    (let cl = classList_remove [''light'', ''dark''] (classList b)
                     in if theme p \<in> set cl then cl else cl @ [theme p]),
                  storage := Some (theme p),
                  writes := writes b @ [theme p]\<rparr>)"
  using assms by (simp add: persist_effect_def classList_add_def setItem_def Let_def)

lemma mount_effect_fst:
  "fst (mount_effect ThemeProvider b) =
     \<lparr>theme = (case storage b of
                 Some v \<Rightarrow> if v \<noteq> [] then v else if prefersDark b then ''dark'' else ''light''
               | None \<Rightarrow> if prefersDark b then ''dark'' else ''light''),
      mounted = True\<rparr>"
  by (simp add: mount_effect_def getItem_def ThemeProvider_def split: option.splits)

lemma mount_effect_snd:
  "snd (mount_effect ThemeProvider b) = b\<lparr>reads := Suc (reads b)\<rparr>"
  by (simp add: mount_effect_def getItem_def Let_def split: option.splits)

text \<open>
  Mounting comes down to the first effect followed by one run of the second: the run of
  the second effect in the first commit sees \<open>mounted = False\<close> and returns at once.
\<close>

lemma initialize_eq:
  "initialize b =
     (case persist_effect (fst (mount_effect ThemeProvider b)) (b\<lparr>reads := Suc (reads b)\<rparr>) of
        Inl e \<Rightarrow> Inl e
      | Inr b' \<Rightarrow> Inr (fst (mount_effect ThemeProvider b), b'))"
proof -
  obtain p1 b1 where m: "mount_effect ThemeProvider b = (p1, b1)"
    by (cases "mount_effect ThemeProvider b")
  have p1: "p1 = fst (mount_effect ThemeProvider b)" and b1: "b1 = b\<lparr>reads := Suc (reads b)\<rparr>"
    using m mount_effect_snd [of b] by simp_all
  have mp: "mounted p1" using p1 by (simp add: mount_effect_fst)
  have first: "persist_effect ThemeProvider b1 = Inr b1"
    by (simp add: persist_effect_def ThemeProvider_def)
  have second: "commit ThemeProvider p1 b1 = persist_effect p1 b1"
    using mp by (simp add: commit_def ThemeProvider_def)
  have "initialize b =
          (case persist_effect p1 b1 of Inl e \<Rightarrow> Inl e | Inr b3 \<Rightarrow> Inr (p1, b3))"
    unfolding initialize_def m by (simp add: first second)
  then show ?thesis
    unfolding p1 b1 .
qed

lemma toggleTheme_theme:
  "theme (toggleTheme p) = ''light'' \<or> theme (toggleTheme p) = ''dark''"
  by (simp add: toggleTheme_def)

lemma toggleTheme_changes: "theme (toggleTheme p) \<noteq> theme p"
  by (simp add: toggleTheme_def)

lemma toggleTheme_mounted: "mounted (toggleTheme p) = mounted p"
  by (simp add: toggleTheme_def)

text \<open>
  A toggle of a mounted provider always changes the theme, so the second effect runs; the
  new theme is \<^verbatim>\<open>'light'\<close> or \<^verbatim>\<open>'dark'\<close>, so \<^verbatim>\<open>classList.add\<close> accepts it.
\<close>

lemma toggle_eq:
  assumes "mounted (fst s)"
  shows "toggle s =
           Inr (toggleTheme (fst s),
                (snd s)\<lparr>classList :=
                    classList_remove [''light'', ''dark''] (classList (snd s))
                      @ [theme (toggleTheme (fst s))],
                  storage := Some (theme (toggleTheme (fst s))),
                  writes := writes (snd s) @ [theme (toggleTheme (fst s))]\<rparr>)"
proof -
  let ?p = "toggleTheme (fst s)"
  have c: "commit (fst s) ?p (snd s) = persist_effect ?p (snd s)"
    by (simp add: commit_def toggleTheme_changes)
  have t: "theme ?p \<noteq> []" "\<not> list_ex ascii_whitespace (theme ?p)"
    using toggleTheme_theme [of "fst s"] no_whitespace_light no_whitespace_dark by auto
  have n: "theme ?p \<notin> set (classList_remove [''light'', ''dark''] (classList (snd s)))"
    using toggleTheme_theme [of "fst s"] by (auto simp: classList_remove_def)
  show ?thesis
    unfolding toggle_def Let_def c
    using persist_effect_mounted [of ?p "snd s"] assms t n
    by (simp add: toggleTheme_mounted Let_def)
qed

lemma toggles_mounted:
  assumes "mounted (fst s)"
  shows "\<exists>s'. toggles n s = Inr s' \<and> mounted (fst s') \<and> reads (snd s') = reads (snd s)"
  using assms
proof (induction n arbitrary: s)
  case 0
  then show ?case by simp
next
  case (Suc n)
  obtain s1 where t: "toggle s = Inr s1" and m: "mounted (fst s1)"
    and r: "reads (snd s1) = reads (snd s)"
    using toggle_eq [OF Suc.prems] Suc.prems by (simp add: toggleTheme_mounted)
  from Suc.IH [OF m] r t show ?case by auto
qed

lemma initialize_Inr:
  assumes "initialize b = Inr s0"
  shows "mounted (fst s0) \<and> fst s0 = fst (mount_effect ThemeProvider b) \<and>
         reads (snd s0) = Suc (reads b) \<and>
         writes (snd s0) = writes b @ [theme (fst s0)] \<and>
         storage (snd s0) = Some (theme (fst s0))"
proof -
  let ?p = "fst (mount_effect ThemeProvider b)"
  let ?b = "b\<lparr>reads := Suc (reads b)\<rparr>"
  have mp: "mounted ?p" by (simp add: mount_effect_fst)
  from assms obtain b' where p: "persist_effect ?p ?b = Inr b'" and s0: "s0 = (?p, b')"
    unfolding initialize_eq by (auto split: sum.splits)
  from p mp obtain cl where "b' = setItem (theme ?p) (?b\<lparr>classList := cl\<rparr>)"
    by (auto simp: persist_effect_def Let_def split: sum.splits)
  then have "reads b' = Suc (reads b)" "writes b' = writes b @ [theme ?p]"
    "storage b' = Some (theme ?p)"
    by (simp_all add: setItem_def)
  then show ?thesis using s0 mp by simp
qed

text \<open>
  Claim C6, as amended. The slot is read once, by initialization, and never by a toggle.
  It is written once when initialization completes, with the mode just chosen, and once
  more by every toggle, with the new mode. So the first write does not wait for the first
  toggle.
\<close>

theorem storage_traffic:
  assumes "initialize b = Inr s0"
  shows "reads (snd s0) = Suc (reads b) \<and>
         writes (snd s0) = writes b @ [theme (fst s0)] \<and>
         storage (snd s0) = Some (theme (fst s0)) \<and>
         (\<exists>s s'. toggles n s0 = Inr s \<and> toggle s = Inr s' \<and>
            reads (snd s') = Suc (reads b) \<and>
            writes (snd s') = writes (snd s) @ [theme (fst s')] \<and>
            storage (snd s') = Some (theme (fst s')))"
proof -
  note i = initialize_Inr [OF assms]
  from i have m0: "mounted (fst s0)" by (rule conjunct1)
  from toggles_mounted [OF m0, of n] obtain s where
    s: "toggles n s0 = Inr s" "mounted (fst s)" "reads (snd s) = reads (snd s0)"
    by blast
  from toggle_eq [OF s(2)] obtain s' where
    s': "toggle s = Inr s'" "reads (snd s') = reads (snd s)"
      "writes (snd s') = writes (snd s) @ [theme (fst s')]"
      "storage (snd s') = Some (theme (fst s'))"
    by simp
  have r: "reads (snd s') = Suc (reads b)"
    using i s(3) s'(2) by simp
  have "\<exists>s s'. toggles n s0 = Inr s \<and> toggle s = Inr s' \<and>
            reads (snd s') = Suc (reads b) \<and>
            writes (snd s') = writes (snd s) @ [theme (fst s')] \<and>
            storage (snd s') = Some (theme (fst s'))"
    using s(1) s'(1) r s'(3) s'(4) by blast
  with i show ?thesis by blast
qed

lemma theme_mount_effect_nonempty: "theme (fst (mount_effect ThemeProvider b)) \<noteq> []"
  by (simp add: mount_effect_fst split: option.splits)

text \<open>Initialization either completes with the mode the first effect chose, or throws.\<close>

lemma initialize_cases:
  "case initialize b of
     Inl e \<Rightarrow> list_ex ascii_whitespace (theme (fst (mount_effect ThemeProvider b)))
   | Inr s \<Rightarrow> theme (fst s) = theme (fst (mount_effect ThemeProvider b)) \<and>
       \<not> list_ex ascii_whitespace (theme (fst (mount_effect ThemeProvider b)))"
proof -
  have "mounted (fst (mount_effect ThemeProvider b))"
    by (simp add: mount_effect_fst)
  then show ?thesis
    unfolding initialize_eq using theme_mount_effect_nonempty [of b]
    by (simp add: persist_effect_def classList_add_def Let_def)
qed

text \<open>
  Claim C5, as amended. The mode chosen at initialization is the stored value when that
  value is a non-empty string, whatever the platform prefers; when the slot is absent or
  holds the empty string it is \<^verbatim>\<open>'dark'\<close> if the platform prefers dark and
  \<^verbatim>\<open>'light'\<close> if not. Initialization completes with that mode unless the value has
  whitespace in it, which \<^verbatim>\<open>classList.add\<close> rejects.
\<close>

theorem initialize_precedence:
  "let t = (case storage b of
              Some v \<Rightarrow> if v \<noteq> [] then v else if prefersDark b then ''dark'' else ''light''
            | None \<Rightarrow> if prefersDark b then ''dark'' else ''light'')
   in theme (fst (mount_effect ThemeProvider b)) = t \<and>
      (case initialize b of
         Inl e \<Rightarrow> list_ex ascii_whitespace t
       | Inr s \<Rightarrow> theme (fst s) = t \<and> \<not> list_ex ascii_whitespace t)"
proof -
  have "theme (fst (mount_effect ThemeProvider b)) =
      (case storage b of
         Some v \<Rightarrow> if v \<noteq> [] then v else if prefersDark b then ''dark'' else ''light''
       | None \<Rightarrow> if prefersDark b then ''dark'' else ''light'')"
    by (simp add: mount_effect_fst)
  with initialize_cases [of b] show ?thesis
    unfolding Let_def by (simp only: simp_thms)
qed

text \<open>A slot that is present and holds the empty string does not become the mode.\<close>

theorem empty_slot_counterexample:
  "storage (session (Some []) True) = Some [] \<and>
   (case initialize (session (Some []) True) of
      Inl e \<Rightarrow> False
    | Inr s \<Rightarrow> theme (fst s) = ''dark'')"
  by (simp add: initialize_eq mount_effect_fst session_def persist_effect_def
      classList_add_def classList_remove_def setItem_def ascii_whitespace_def)

text \<open>
  With an empty slot and a platform that prefers dark, \<^verbatim>\<open>"dark"\<close> is in the slot before
  any toggle, and the first toggle writes \<^verbatim>\<open>"light"\<close>.
\<close>

theorem first_write_counterexample:
  "case initialize (session None True) of
     Inl e \<Rightarrow> False
   | Inr s \<Rightarrow> writes (snd s) = [''dark''] \<and>
       (case toggle s of
          Inl e \<Rightarrow> False
        | Inr s' \<Rightarrow> writes (snd s') = [''dark'', ''light''])"
  by (simp add: initialize_eq mount_effect_fst session_def persist_effect_def
      classList_add_def classList_remove_def setItem_def ascii_whitespace_def
      toggle_eq toggleTheme_def)

theorem storage_traffic_witness:
  "initialize (session None True) =
     Inr (\<lparr>theme = ''dark'', mounted = True\<rparr>,
          \<lparr>storage = Some ''dark'', prefersDark = True, classList = [''dark''],
           reads = 1, writes = [''dark'']\<rparr>) \<and>
   (\<exists>s s'. toggles 0 (\<lparr>theme = ''dark'', mounted = True\<rparr>,
          \<lparr>storage = Some ''dark'', prefersDark = True, classList = [''dark''],
           reads = 1, writes = [''dark'']\<rparr>) = Inr s \<and> toggle s = Inr s' \<and>
      reads (snd s') = 1 \<and>
      writes (snd s') = writes (snd s) @ [theme (fst s')] \<and>
      storage (snd s') = Some (theme (fst s')))"
proof -
  have i: "initialize (session None True) =
     Inr (\<lparr>theme = ''dark'', mounted = True\<rparr>,
          \<lparr>storage = Some ''dark'', prefersDark = True, classList = [''dark''],
           reads = 1, writes = [''dark'']\<rparr>)"
    by (simp add: initialize_eq mount_effect_fst session_def persist_effect_def
      classList_add_def classList_remove_def setItem_def ascii_whitespace_def)
  show ?thesis
    using i storage_traffic [OF i, of 0] by (simp add: session_def)
qed

text \<open>
  Claim C7. Two toggles return the mode to where it was, and the slot holds the mode after
  each. The code loses the first half in a session that starts from a slot holding a
  string other than the two theme names: the mode after initialization is that string, and
  two toggles later it is \<^verbatim>\<open>'dark'\<close>.
\<close>

theorem double_toggle_from_foreign_value:
  "case initialize (session (Some ''blue'') False) of
     Inl e \<Rightarrow> False
   | Inr s0 \<Rightarrow> theme (fst s0) = ''blue'' \<and>
       (case toggles (Suc (Suc 0)) s0 of
          Inl e \<Rightarrow> False
        | Inr s2 \<Rightarrow> theme (fst s2) = ''dark'')"
  by (simp add: initialize_eq mount_effect_fst session_def persist_effect_def
      classList_add_def classList_remove_def setItem_def ascii_whitespace_def
      toggle_eq toggleTheme_def)

text \<open>
  Claim C8. After initialization the root carries exactly one of the two markers, the one
  of the current mode. The code breaks this in a session that starts from a slot holding
  another string: the root then carries that string as its only class, and neither marker.
\<close>

theorem root_markers_from_foreign_value:
  "case initialize (session (Some ''blue'') False) of
     Inl e \<Rightarrow> False
   | Inr s0 \<Rightarrow> theme (fst s0) = ''blue'' \<and> classList (snd s0) = [''blue''] \<and>
       markers (snd s0) = []"
  by (simp add: initialize_eq mount_effect_fst session_def persist_effect_def
      classList_add_def classList_remove_def setItem_def ascii_whitespace_def markers_def)

text \<open>
  Claim C9. After initialization the mode is \<^verbatim>\<open>'light'\<close> or \<^verbatim>\<open>'dark'\<close>. The code
  takes the stored string as it is, through the unchecked \<^verbatim>\<open>as Theme | null\<close>: a slot
  holding \<^verbatim>\<open>"blue"\<close> gives the mode \<^verbatim>\<open>"blue"\<close>, which is also written back to the slot.
\<close>

theorem mode_from_foreign_value:
  "case initialize (session (Some ''blue'') dark) of
     Inl e \<Rightarrow> False
   | Inr s0 \<Rightarrow> fst s0 = \<lparr>theme = ''blue'', mounted = True\<rparr> \<and>
       theme (fst s0) \<noteq> ''light'' \<and> theme (fst s0) \<noteq> ''dark'' \<and>
       storage (snd s0) = Some ''blue''"
  by (simp add: initialize_eq mount_effect_fst session_def persist_effect_def
      classList_add_def classList_remove_def setItem_def ascii_whitespace_def)

subsection \<open>Sessions whose mode is one of the two themes\<close>

text \<open>
  Where the mode is \<^verbatim>\<open>'light'\<close> or \<^verbatim>\<open>'dark'\<close>, as it is after any toggle and after
  initialization from an absent, empty or well-formed slot, the provider behaves as its
  types say.
\<close>

lemma toggleTheme_twice:
  assumes "theme p = ''light'' \<or> theme p = ''dark''"
  shows "toggleTheme (toggleTheme p) = p"
  using assms by (auto simp: toggleTheme_def)

lemma toggle_twice:
  assumes "mounted (fst s)" and "theme (fst s) = ''light'' \<or> theme (fst s) = ''dark''"
  shows "\<exists>s2. toggles (Suc (Suc 0)) s = Inr s2 \<and> fst s2 = fst s \<and>
           storage (snd s2) = Some (theme (fst s)) \<and> markers (snd s2) = [theme (fst s)]"
proof -
  obtain s1 where s1: "toggle s = Inr s1" "fst s1 = toggleTheme (fst s)"
    using toggle_eq [OF assms(1)] by simp
  have m1: "mounted (fst s1)" using s1(2) assms(1) by (simp add: toggleTheme_mounted)
  have again: "toggleTheme (fst s1) = fst s"
    using s1(2) toggleTheme_twice [OF assms(2)] by simp
  have "markers ((snd s1)\<lparr>classList :=
                    classList_remove [''light'', ''dark''] (classList (snd s1))
                      @ [theme (fst s)],
                  storage := Some (theme (fst s)),
                  writes := writes (snd s1) @ [theme (fst s)]\<rparr>) = [theme (fst s)]"
    using assms(2) by (auto simp: markers_def classList_remove_def filter_empty_conv)
  then show ?thesis
    using s1(1) toggle_eq [OF m1] again by simp
qed

lemma toggle_markers:
  assumes "mounted (fst s)"
  shows "\<exists>s'. toggle s = Inr s' \<and> markers (snd s') = [theme (fst s')] \<and>
           storage (snd s') = Some (theme (fst s'))"
proof -
  have "filter (\<lambda>t. t = ''light'' \<or> t = ''dark'')
          (classList_remove [''light'', ''dark''] (classList (snd s))) = []"
    by (auto simp: classList_remove_def filter_empty_conv)
  then show ?thesis
    using toggle_eq [OF assms] toggleTheme_theme [of "fst s"]
    by (auto simp: markers_def)
qed

lemma initialize_markers:
  assumes "initialize b = Inr s" and "theme (fst s) = ''light'' \<or> theme (fst s) = ''dark''"
  shows "markers (snd s) = [theme (fst s)]"
proof -
  let ?p = "fst (mount_effect ThemeProvider b)"
  let ?b = "b\<lparr>reads := Suc (reads b)\<rparr>"
  have f: "filter (\<lambda>t. t = ''light'' \<or> t = ''dark'')
          (classList_remove [''light'', ''dark''] (classList b)) = []"
    by (auto simp: classList_remove_def filter_empty_conv)
  have n: "theme ?p \<notin> set (classList_remove [''light'', ''dark''] (classList b))"
    if "theme ?p = ''light'' \<or> theme ?p = ''dark''"
    using that by (auto simp: classList_remove_def)
  from assms(1) obtain b' where p: "persist_effect ?p ?b = Inr b'" and s: "s = (?p, b')"
    unfolding initialize_eq by (auto split: sum.splits)
  have t: "theme ?p = ''light'' \<or> theme ?p = ''dark''" using assms(2) s by simp
  have mp: "mounted ?p" by (simp add: mount_effect_fst)
  have "classList b' = classList_remove [''light'', ''dark''] (classList b) @ [theme ?p]"
    using p n [OF t] mp
    by (auto simp: persist_effect_def classList_add_def Let_def setItem_def
        split: if_splits)
  then show ?thesis
    using f t s by (auto simp: markers_def)
qed

lemma initialize_well_formed_slot:
  assumes "storage b = None \<or> storage b = Some [] \<or> storage b = Some ''light'' \<or>
           storage b = Some ''dark''"
  shows "\<exists>s. initialize b = Inr s \<and> (theme (fst s) = ''light'' \<or> theme (fst s) = ''dark'')"
proof -
  let ?t = "theme (fst (mount_effect ThemeProvider b))"
  have t: "?t = ''light'' \<or> ?t = ''dark''"
    using assms by (auto simp: mount_effect_fst)
  then have "\<not> list_ex ascii_whitespace ?t"
    using no_whitespace_light no_whitespace_dark by auto
  then show ?thesis
    using initialize_cases [of b] t by (auto split: sum.splits)
qed

lemma markers_before_initialize: "markers (session saved dark) = []"
  by (simp add: markers_def session_def)

text \<open>A stored \<^verbatim>\<open>"dark"\<close> wins over a platform that prefers light.\<close>

lemma persisted_dark_wins:
  "initialize (session (Some ''dark'') False) =
     Inr (\<lparr>theme = ''dark'', mounted = True\<rparr>,
          \<lparr>storage = Some ''dark'', prefersDark = False, classList = [''dark''],
           reads = 1, writes = [''dark'']\<rparr>)"
  by (simp add: initialize_eq mount_effect_fst session_def persist_effect_def
      classList_add_def classList_remove_def setItem_def ascii_whitespace_def)

text \<open>A stored value with a space in it makes the second effect throw.\<close>

lemma persisted_whitespace_throws:
  "initialize (session (Some ''dark mode'') dark) = Inl InvalidCharacterError"
  by (simp add: initialize_eq mount_effect_fst session_def persist_effect_def
      classList_add_def classList_remove_def setItem_def ascii_whitespace_def)

end
